theory Spec2Isabelle
  imports Complex_Main
begin

section \<open>Numbers\<close>

text \<open>
  The engine computes with JavaScript numbers. A number is modelled as a real, one of the
  two infinities, or NaN. Not modelled: rounding (every finite result is the exact real
  one), overflow to an infinity, the sign of zero (a nonzero number divided by zero gives
  the infinity with the sign of the dividend) and the 32-bit storage of the vector library.
  What the model keeps is what the code of the engine branches on: comparisons that are
  false on NaN, NaN coming out of \<open>Math.sqrt\<close> of a negative number and out of arithmetic
  on \<open>undefined\<close>, and \<open>Infinity\<close> as a mass.
\<close>

datatype number = Num real | PInf | NInf | NaN

instantiation number :: "{plus, minus, uminus, times, inverse, ord}"
begin

fun plus_number :: "number \<Rightarrow> number \<Rightarrow> number" where
  "plus_number (Num a) (Num b) = Num (a + b)"
| "plus_number NaN y = NaN"
| "plus_number x NaN = NaN"
| "plus_number PInf NInf = NaN"
| "plus_number NInf PInf = NaN"
| "plus_number PInf y = PInf"
| "plus_number x PInf = PInf"
| "plus_number NInf y = NInf"
| "plus_number x NInf = NInf"

fun uminus_number :: "number \<Rightarrow> number" where
  "uminus_number (Num a) = Num (- a)"
| "uminus_number PInf = NInf"
| "uminus_number NInf = PInf"
| "uminus_number NaN = NaN"

definition minus_number :: "number \<Rightarrow> number \<Rightarrow> number" where
  "minus_number x y = x + (- y)"

text \<open>The sign (\<open>-1\<close>, \<open>0\<close>, \<open>1\<close>) of a number other than NaN.\<close>

fun sign :: "number \<Rightarrow> real" where
  "sign (Num a) = sgn a"
| "sign PInf = 1"
| "sign NInf = - 1"
| "sign NaN = 0"

definition inf_of :: "real \<Rightarrow> number" where
  "inf_of s = (if s = 0 then NaN else if 0 < s then PInf else NInf)"

fun times_number :: "number \<Rightarrow> number \<Rightarrow> number" where
  "times_number (Num a) (Num b) = Num (a * b)"
| "times_number NaN y = NaN"
| "times_number x NaN = NaN"
| "times_number x y = inf_of (sign x * sign y)"

fun divide_number :: "number \<Rightarrow> number \<Rightarrow> number" where
  "divide_number (Num a) (Num b) = (if b = 0 then inf_of (sgn a) else Num (a / b))"
| "divide_number NaN y = NaN"
| "divide_number x NaN = NaN"
| "divide_number (Num a) y = Num 0"
| "divide_number x (Num b) = inf_of (sign x * (if b < 0 then - 1 else 1))"
| "divide_number x y = NaN"

definition inverse_number :: "number \<Rightarrow> number" where
  "inverse_number x = divide (Num 1) x"

fun less_number :: "number \<Rightarrow> number \<Rightarrow> bool" where
  "less_number (Num a) (Num b) = (a < b)"
| "less_number NaN y = False"
| "less_number x NaN = False"
| "less_number x NInf = False"
| "less_number PInf y = False"
| "less_number NInf y = True"
| "less_number x PInf = True"

fun less_eq_number :: "number \<Rightarrow> number \<Rightarrow> bool" where
  "less_eq_number (Num a) (Num b) = (a \<le> b)"
| "less_eq_number NaN y = False"
| "less_eq_number x NaN = False"
| "less_eq_number NInf y = True"
| "less_eq_number x PInf = True"
| "less_eq_number x NInf = False"
| "less_eq_number PInf y = False"

instance ..

end

text \<open>\<open>==\<close> and \<open>===\<close> on two numbers: NaN is equal to nothing, not even to itself.\<close>

definition eq_number :: "number \<Rightarrow> number \<Rightarrow> bool" where
  "eq_number x y = (x \<noteq> NaN \<and> y \<noteq> NaN \<and> x = y)"

text \<open>\<open>Number.isFinite\<close>: a real, neither an infinity nor NaN.\<close>

fun isFinite :: "number \<Rightarrow> bool" where
  "isFinite (Num a) = True"
| "isFinite x = False"

fun Math_sqrt :: "number \<Rightarrow> number" where
  "Math_sqrt (Num a) = (if a < 0 then NaN else Num (sqrt a))"
| "Math_sqrt PInf = PInf"
| "Math_sqrt NInf = NaN"
| "Math_sqrt NaN = NaN"

fun Math_cos :: "number \<Rightarrow> number" where
  "Math_cos (Num a) = Num (cos a)"
| "Math_cos x = NaN"

fun Math_sin :: "number \<Rightarrow> number" where
  "Math_sin (Num a) = Num (sin a)"
| "Math_sin x = NaN"

fun Math_exp :: "number \<Rightarrow> number" where
  "Math_exp (Num a) = Num (exp a)"
| "Math_exp PInf = PInf"
| "Math_exp NInf = Num 0"
| "Math_exp NaN = NaN"

text \<open>
  \<open>Math.pow\<close>, case by case as the language standard lists them (the two zeros being one
  here). \<open>is_int y\<close> and \<open>is_odd y\<close> read a finite exponent.
\<close>

definition is_int :: "real \<Rightarrow> bool" where
  "is_int y = (of_int \<lfloor>y\<rfloor> = y)"

definition is_odd :: "real \<Rightarrow> bool" where
  "is_odd y = (is_int y \<and> odd \<lfloor>y\<rfloor>)"

fun Math_pow :: "number \<Rightarrow> number \<Rightarrow> number" where
  "Math_pow x NaN = NaN"
| "Math_pow x (Num y) =
     (if y = 0 then Num 1
      else case x of
        NaN \<Rightarrow> NaN
      | PInf \<Rightarrow> (if 0 < y then PInf else Num 0)
      | NInf \<Rightarrow> (if 0 < y then (if is_odd y then NInf else PInf) else Num 0)
      | Num b \<Rightarrow>
          (if b = 0 then (if 0 < y then Num 0 else PInf)
           else if 0 < b then Num (b powr y)
           else if is_int y then Num ((if is_odd y then - 1 else 1) * (\<bar>b\<bar> powr y))
           else NaN))"
| "Math_pow x PInf =
     (case x of
        NaN \<Rightarrow> NaN
      | Num b \<Rightarrow> (if 1 < \<bar>b\<bar> then PInf else if \<bar>b\<bar> = 1 then NaN else Num 0)
      | _ \<Rightarrow> PInf)"
| "Math_pow x NInf =
     (case x of
        NaN \<Rightarrow> NaN
      | Num b \<Rightarrow> (if 1 < \<bar>b\<bar> then Num 0 else if \<bar>b\<bar> = 1 then NaN else PInf)
      | _ \<Rightarrow> Num 0)"

section \<open>Vectors\<close>

text \<open>
  Modelled from the spec: the vector module of the repository (\<open>./vector\<close>) is not among
  the sources. The specification calls the math primitives an external dependency
  providing add, scale, dot and the like; the engine calls \<open>vec3\<close> with the signatures of
  the gl-matrix library (\<open>out\<close> first), and the operations below are componentwise as in
  that library, on values: the caller stores the result where the source passes \<open>out\<close>.
\<close>

type_synonym vec3 = "number \<times> number \<times> number"

definition vec3_create :: vec3 where
  "vec3_create = (Num 0, Num 0, Num 0)"

fun vec3_add :: "vec3 \<Rightarrow> vec3 \<Rightarrow> vec3" where
  "vec3_add (a0, a1, a2) (b0, b1, b2) = (a0 + b0, a1 + b1, a2 + b2)"

fun vec3_sub :: "vec3 \<Rightarrow> vec3 \<Rightarrow> vec3" where
  "vec3_sub (a0, a1, a2) (b0, b1, b2) = (a0 - b0, a1 - b1, a2 - b2)"

fun vec3_scale :: "vec3 \<Rightarrow> number \<Rightarrow> vec3" where
  "vec3_scale (a0, a1, a2) s = (a0 * s, a1 * s, a2 * s)"

fun vec3_scaleAndAdd :: "vec3 \<Rightarrow> vec3 \<Rightarrow> number \<Rightarrow> vec3" where
  "vec3_scaleAndAdd (a0, a1, a2) (b0, b1, b2) s = (a0 + b0 * s, a1 + b1 * s, a2 + b2 * s)"

fun vec3_dot :: "vec3 \<Rightarrow> vec3 \<Rightarrow> number" where
  "vec3_dot (a0, a1, a2) (b0, b1, b2) = a0 * b0 + a1 * b1 + a2 * b2"

fun finite_vec3 :: "vec3 \<Rightarrow> bool" where
  "finite_vec3 (a, b, c) = (isFinite a \<and> isFinite b \<and> isFinite c)"

section \<open>Particle\<close>

record Particle =
  inverseMass :: number
  damping :: number
  position :: vec3
  velocity :: vec3
  forceAccum :: vec3
  acceleration :: vec3

text \<open>A particle as its class initialisers leave it.\<close>

definition new_Particle :: Particle where
  "new_Particle = \<lparr> inverseMass = Num 0, damping = Num 0, position = vec3_create,
     velocity = vec3_create, forceAccum = vec3_create, acceleration = vec3_create \<rparr>"

definition getMass :: "Particle \<Rightarrow> number" where
  "getMass p = (if eq_number (inverseMass p) (Num 0) then PInf else Num 1 / inverseMass p)"

definition getInverseMass :: "Particle \<Rightarrow> number" where
  "getInverseMass p = inverseMass p"

definition hasFiniteMass :: "Particle \<Rightarrow> bool" where
  "hasFiniteMass p = (Num 0 \<le> inverseMass p)"

definition clearAccumulator :: "Particle \<Rightarrow> Particle" where
  "clearAccumulator p = p\<lparr> forceAccum := (Num 0, Num 0, Num 0) \<rparr>"

definition addForce :: "Particle \<Rightarrow> vec3 \<Rightarrow> Particle" where
  "addForce p force = p\<lparr> forceAccum := vec3_add (forceAccum p) force \<rparr>"

text \<open>
  \<open>assert\<close> is \<open>console.assert\<close>: when \<open>duration > 0\<close> is false it prints a message and
  the method goes on, so the assertion is no branch of the model.
  \<open>const resultingAcc = this.acceleration\<close> names the stored vector, it does not copy it:
  \<open>scaleAndAdd\<close> with \<open>resultingAcc\<close> as \<open>out\<close> writes the particle's acceleration.
\<close>

definition Particle_integrate :: "Particle \<Rightarrow> number \<Rightarrow> Particle" where
  "Particle_integrate p duration =
     (let position' = vec3_scaleAndAdd (position p) (velocity p) duration;
          resultingAcc = vec3_scaleAndAdd (acceleration p) (forceAccum p) (inverseMass p);
          velocity' = vec3_scaleAndAdd (velocity p) resultingAcc duration;
          velocity' = vec3_scale velocity' (Math_pow (damping p) duration)
      in clearAccumulator
           (p\<lparr> position := position', acceleration := resultingAcc, velocity := velocity' \<rparr>))"

section \<open>Particle force generators\<close>

record ParticleGravity =
  gravity :: vec3

text \<open>
  \<open>vec3.scale(this.gravity, this.gravity, duration)\<close> writes the generator's own vector
  and returns it; the generator is therefore part of the result.
\<close>

definition ParticleGravity_updateForce ::
  "ParticleGravity \<Rightarrow> Particle \<Rightarrow> number \<Rightarrow> ParticleGravity \<times> Particle" where
  "ParticleGravity_updateForce g particle duration =
     (if \<not> hasFiniteMass particle then (g, particle)
      else
        let gravity' = vec3_scale (gravity g) duration
        in (g\<lparr> gravity := gravity' \<rparr>, addForce particle gravity'))"

text \<open>The fake spring (its \<open>damping\<close> field is \<open>springDamping\<close> here). It writes none of its own fields.\<close>

record ParticleFakeSpring =
  anchor :: vec3
  springConstant :: number
  springDamping :: number

definition ParticleFakeSpring_updateForce ::
  "ParticleFakeSpring \<Rightarrow> Particle \<Rightarrow> number \<Rightarrow> Particle" where
  "ParticleFakeSpring_updateForce fs particle duration =
     (if \<not> hasFiniteMass particle then particle
      else
        let position0 = vec3_sub (position particle) (anchor fs);
            gamma = Num (1 / 2) *
              Math_sqrt (Num 4 * springConstant fs - springDamping fs * springDamping fs)
        in if eq_number gamma (Num 0) then particle
           else
             let c = vec3_scale position0 (springDamping fs / (Num 2 * gamma));
                 tempVec3 = vec3_scale (velocity particle) (Num 1 / gamma);
                 c = vec3_add c tempVec3;
                 target = vec3_scale position0 (Math_cos (gamma * duration));
                 tempVec3 = vec3_scale c (Math_sin (gamma * duration));
                 target = vec3_scale target (Math_exp (Num (- (1 / 2)) * duration * springDamping fs));
                 accel = vec3_sub target position0;
                 accel = vec3_scale accel (Num 1 / (duration * duration));
                 tempVec3 = vec3_scale (velocity particle) (Num 1 / duration);
                 accel = vec3_sub accel tempVec3
             in addForce particle (vec3_scale accel (getMass particle)))"

section \<open>Rigid body\<close>

text \<open>
  Quaternions and matrices are those of gl-matrix: a quaternion is \<open>(x, y, z, w)\<close>, a
  matrix the array of its entries. Reading an array beyond its end gives \<open>undefined\<close>,
  which is NaN in the arithmetic it is read for (\<open>elem\<close>).
\<close>

type_synonym quat = "number \<times> number \<times> number \<times> number"

definition elem :: "number list \<Rightarrow> nat \<Rightarrow> number" where
  "elem m i = (if i < length m then m ! i else NaN)"

definition quat_create :: quat where
  "quat_create = (Num 0, Num 0, Num 0, Num 1)"

definition mat3_create :: "number list" where
  "mat3_create = [Num 1, Num 0, Num 0, Num 0, Num 1, Num 0, Num 0, Num 0, Num 1]"

definition mat4_create :: "number list" where
  "mat4_create = [Num 1, Num 0, Num 0, Num 0, Num 0, Num 1, Num 0, Num 0,
                  Num 0, Num 0, Num 1, Num 0, Num 0, Num 0, Num 0, Num 1]"

fun quat_mul :: "quat \<Rightarrow> quat \<Rightarrow> quat" where
  "quat_mul (ax, ay, az, aw) (bx, by, bz, bw) =
     (ax * bw + aw * bx + ay * bz - az * by,
      ay * bw + aw * by + az * bx - ax * bz,
      az * bw + aw * bz + ax * by - ay * bx,
      aw * bw - ax * bx - ay * by - az * bz)"

fun quat_normalize :: "quat \<Rightarrow> quat" where
  "quat_normalize (x, y, z, w) =
     (let len = x * x + y * y + z * z + w * w;
          len = (if Num 0 < len then Num 1 / Math_sqrt len else len)
      in (x * len, y * len, z * len, w * len))"

fun vec3_transformMat3 :: "vec3 \<Rightarrow> number list \<Rightarrow> vec3" where
  "vec3_transformMat3 (x, y, z) m =
     (x * elem m 0 + y * elem m 3 + z * elem m 6,
      x * elem m 1 + y * elem m 4 + z * elem m 7,
      x * elem m 2 + y * elem m 5 + z * elem m 8)"

fun mat4_fromRotationTranslation :: "quat \<Rightarrow> vec3 \<Rightarrow> number list" where
  "mat4_fromRotationTranslation (x, y, z, w) (v0, v1, v2) =
     (let x2 = x + x; y2 = y + y; z2 = z + z;
          xx = x * x2; xy = x * y2; xz = x * z2;
          yy = y * y2; yz = y * z2; zz = z * z2;
          wx = w * x2; wy = w * y2; wz = w * z2
      in [Num 1 - (yy + zz), xy + wz, xz - wy, Num 0,
          xy - wz, Num 1 - (xx + zz), yz + wx, Num 0,
          xz + wy, yz - wx, Num 1 - (xx + yy), Num 0,
          v0, v1, v2, Num 1])"

fun addScaledVector :: "quat \<Rightarrow> vec3 \<Rightarrow> number \<Rightarrow> quat" where
  "addScaledVector (i0, i1, i2, i3) (v0, v1, v2) scale =
     (case quat_mul (v0 * scale, v1 * scale, v2 * scale, Num 0) (i0, i1, i2, i3) of
        (q0, q1, q2, q3) \<Rightarrow>
          (i0 + q0 * Num (1 / 2), i1 + q1 * Num (1 / 2), i2 + q2 * Num (1 / 2),
           i3 + q3 * Num (1 / 2)))"

text \<open>The squared length of a quaternion (\<open>quat.squaredLength\<close>); 1 for a unit quaternion.\<close>

fun quat_squaredLength :: "quat \<Rightarrow> number" where
  "quat_squaredLength (x, y, z, w) = x * x + y * y + z * z + w * w"

fun finite_quat :: "quat \<Rightarrow> bool" where
  "finite_quat (x, y, z, w) = (isFinite x \<and> isFinite y \<and> isFinite z \<and> isFinite w)"

definition sleepEpsilon :: number where
  "sleepEpsilon = Num (3 / 10)"

text \<open>
  The fields a rigid body shares by name with a particle carry the prefix \<open>body_\<close>.
\<close>

record RigidBody =
  body_inverseMass :: number
  inverseInertiaTensor :: "number list"
  linearDamping :: number
  angularDamping :: number
  body_position :: vec3
  orientation :: quat
  body_velocity :: vec3
  rotation :: vec3
  inverseInertiaTensorWorld :: "number list"
  motion :: number
  isAwake :: bool
  canSleep :: bool
  transformMatrix :: "number list"
  body_forceAccum :: vec3
  torqueAccum :: vec3
  body_acceleration :: vec3
  lastFrameAcceleration :: vec3

definition new_RigidBody :: RigidBody where
  "new_RigidBody = \<lparr> body_inverseMass = Num 0, inverseInertiaTensor = mat3_create,
     linearDamping = Num (1 / 10), angularDamping = Num (1 / 10),
     body_position = vec3_create, orientation = quat_create, body_velocity = vec3_create,
     rotation = vec3_create, inverseInertiaTensorWorld = mat3_create, motion = Num 0,
     isAwake = False, canSleep = False, transformMatrix = mat4_create,
     body_forceAccum = vec3_create, torqueAccum = vec3_create,
     body_acceleration = vec3_create, lastFrameAcceleration = vec3_create \<rparr>"

definition calculateTransformMatrix :: "vec3 \<Rightarrow> quat \<Rightarrow> number list" where
  "calculateTransformMatrix pos q = mat4_fromRotationTranslation q pos"

text \<open>
  The nine entries written into \<open>iitWorld\<close>. The seventh product of the source reads
  \<open>iitBody[9]\<close>, one past the end of a 3x3 matrix.
\<close>

definition transformInertiaTensor :: "quat \<Rightarrow> number list \<Rightarrow> number list \<Rightarrow> number list" where
  "transformInertiaTensor q iitBody rotmat =
     (let t4 = elem rotmat 0 * elem iitBody 0 + elem rotmat 1 * elem iitBody 3 + elem rotmat 2 * elem iitBody 6;
          t9 = elem rotmat 0 * elem iitBody 1 + elem rotmat 1 * elem iitBody 4 + elem rotmat 2 * elem iitBody 7;
          t14 = elem rotmat 0 * elem iitBody 2 + elem rotmat 1 * elem iitBody 5 + elem rotmat 2 * elem iitBody 8;
          t28 = elem rotmat 4 * elem iitBody 0 + elem rotmat 5 * elem iitBody 3 + elem rotmat 6 * elem iitBody 6;
          t33 = elem rotmat 4 * elem iitBody 1 + elem rotmat 5 * elem iitBody 4 + elem rotmat 6 * elem iitBody 7;
          t38 = elem rotmat 4 * elem iitBody 2 + elem rotmat 5 * elem iitBody 5 + elem rotmat 6 * elem iitBody 8;
          t52 = elem rotmat 8 * elem iitBody 0 + elem rotmat 9 * elem iitBody 9 + elem rotmat 10 * elem iitBody 6;
          t57 = elem rotmat 8 * elem iitBody 1 + elem rotmat 9 * elem iitBody 4 + elem rotmat 10 * elem iitBody 7;
          t62 = elem rotmat 8 * elem iitBody 2 + elem rotmat 9 * elem iitBody 5 + elem rotmat 10 * elem iitBody 8
      in [t4 * elem rotmat 0 + t9 * elem rotmat 1 + t14 * elem rotmat 2,
          t4 * elem rotmat 4 + t9 * elem rotmat 5 + t14 * elem rotmat 6,
          t4 * elem rotmat 8 + t9 * elem rotmat 9 + t14 * elem rotmat 10,
          t28 * elem rotmat 0 + t33 * elem rotmat 1 + t38 * elem rotmat 2,
          t28 * elem rotmat 4 + t33 * elem rotmat 5 + t38 * elem rotmat 6,
          t28 * elem rotmat 8 + t33 * elem rotmat 9 + t38 * elem rotmat 10,
          t52 * elem rotmat 0 + t57 * elem rotmat 1 + t62 * elem rotmat 2,
          t52 * elem rotmat 4 + t57 * elem rotmat 5 + t62 * elem rotmat 6,
          t52 * elem rotmat 8 + t57 * elem rotmat 9 + t62 * elem rotmat 10])"

definition calculateDerivedData :: "RigidBody \<Rightarrow> RigidBody" where
  "calculateDerivedData b =
     (let b1 = b\<lparr> orientation := quat_normalize (orientation b) \<rparr>;
          b2 = b1\<lparr> transformMatrix := calculateTransformMatrix (body_position b1) (orientation b1) \<rparr>
      in b2\<lparr> inverseInertiaTensorWorld :=
              transformInertiaTensor (orientation b2) (inverseInertiaTensor b2) (transformMatrix b2) \<rparr>)"

definition clearAccumulators :: "RigidBody \<Rightarrow> RigidBody" where
  "clearAccumulators b = b\<lparr> body_forceAccum := (Num 0, Num 0, Num 0),
                             torqueAccum := (Num 0, Num 0, Num 0) \<rparr>"

text \<open>
  \<open>setAwake(true)\<close> sets the flag (the statement \<open>this.motion\<close> after it reads a field and
  does nothing with it); the branch for \<open>false\<close> is empty.
\<close>

definition setAwake :: "RigidBody \<Rightarrow> bool \<Rightarrow> RigidBody" where
  "setAwake b awake = (if awake then b\<lparr> isAwake := True \<rparr> else b)"

definition RigidBody_integrate :: "RigidBody \<Rightarrow> number \<Rightarrow> RigidBody" where
  "RigidBody_integrate b duration =
     (if \<not> isAwake b then b
      else
        let lastFrameAcceleration' =
              vec3_scaleAndAdd (body_acceleration b) (body_forceAccum b) (body_inverseMass b);
            angularAcceleration = vec3_transformMat3 (torqueAccum b) (inverseInertiaTensorWorld b);
            velocity' = vec3_scaleAndAdd (body_velocity b) lastFrameAcceleration' duration;
            rotation' = vec3_scaleAndAdd (rotation b) angularAcceleration duration;
            velocity' = vec3_scale velocity' (Math_pow (linearDamping b) duration);
            rotation' = vec3_scale rotation' (Math_pow (angularDamping b) duration);
            position' = vec3_scaleAndAdd (body_position b) velocity' duration;
            orientation' = addScaledVector (orientation b) rotation' duration;
            b1 = calculateDerivedData
                   (b\<lparr> lastFrameAcceleration := lastFrameAcceleration', body_velocity := velocity',
                       rotation := rotation', body_position := position',
                       orientation := orientation' \<rparr>);
            b2 = clearAccumulators b1
        in if canSleep b2 then
             (let currentMotion = vec3_dot (body_velocity b2) (body_velocity b2) +
                                  vec3_dot (rotation b2) (rotation b2);
                  bias = Math_pow (Num (1 / 2)) duration
              in if motion b2 < sleepEpsilon then setAwake b2 False
                 else if Num 10 * sleepEpsilon < motion b2
                      then b2\<lparr> motion := Num 10 * sleepEpsilon \<rparr>
                      else b2)
           else b2)"

definition RigidBody_getMass :: "RigidBody \<Rightarrow> number" where
  "RigidBody_getMass b =
     (if eq_number (body_inverseMass b) (Num 0) then PInf else Num 1 / body_inverseMass b)"

definition RigidBody_hasFiniteMass :: "RigidBody \<Rightarrow> bool" where
  "RigidBody_hasFiniteMass b = (Num 0 \<le> body_inverseMass b)"

section \<open>Particle contacts\<close>

text \<open>
  Contacts refer to particles, several contacts may refer to the same one, and resolving a
  contact writes the particles it refers to. The particles therefore live in a store, and
  a contact holds references (\<open>==\<close> on two particles compares references). The arrays
  \<open>particles\<close> and \<open>particleMovement\<close> are read and written at the indices 0 and 1 only; each
  is modelled by its two elements, \<open>None\<close> where the element is \<open>undefined\<close> (both arrays
  start empty). \<open>penetration\<close> and \<open>restitution\<close> are declared without a value; an unset
  one is NaN here, which is what \<open>undefined\<close> is in the arithmetic and in the comparisons
  made of them.
\<close>

type_synonym ref = nat

type_synonym store = "ref \<Rightarrow> Particle"

record ParticleContact =
  particles0 :: "ref option"
  particles1 :: "ref option"
  restitution :: number
  contactNormal :: vec3
  penetration :: number
  particleMovement0 :: "vec3 option"
  particleMovement1 :: "vec3 option"

text \<open>A contact as its class initialisers leave it.\<close>

definition new_ParticleContact :: ParticleContact where
  "new_ParticleContact = \<lparr> particles0 = None, particles1 = None, restitution = NaN,
     contactNormal = vec3_create, penetration = NaN,
     particleMovement0 = None, particleMovement1 = None \<rparr>"

text \<open>
  Reading a property of \<open>undefined\<close> raises a TypeError: so does a method call on an
  absent \<open>particles[0]\<close>, and so do the vector operations on an absent vector, which read
  (\<open>dot\<close>) or write (\<open>zero\<close>) its components.
\<close>

datatype error = TypeError

definition calculateSeparatingVelocity :: "store \<Rightarrow> ParticleContact \<Rightarrow> error + number" where
  "calculateSeparatingVelocity h c =
     (case particles0 c of
        None \<Rightarrow> Inl TypeError
      | Some r0 \<Rightarrow>
          let relativeVelocity = velocity (h r0);
              relativeVelocity =
                (case particles1 c of
                   None \<Rightarrow> relativeVelocity
                 | Some r1 \<Rightarrow> vec3_sub relativeVelocity (velocity (h r1)))
          in Inr (vec3_dot relativeVelocity (contactNormal c)))"

definition resolveVelocity :: "store \<Rightarrow> ParticleContact \<Rightarrow> number \<Rightarrow> error + store" where
  "resolveVelocity h c duration =
     (case calculateSeparatingVelocity h c of
        Inl e \<Rightarrow> Inl e
      | Inr separatingVelocity \<Rightarrow>
          if Num 0 < separatingVelocity then Inr h
          else
            (case particles0 c of
               None \<Rightarrow> Inl TypeError
             | Some r0 \<Rightarrow>
                 let newSepVelocity = - separatingVelocity * restitution c;
                     accCausedVelocity =
                       (case particles1 c of
                          None \<Rightarrow> acceleration (h r0)
                        | Some r1 \<Rightarrow> vec3_sub (acceleration (h r0)) (acceleration (h r1)));
                     accCausedSepVelocity = vec3_dot accCausedVelocity (contactNormal c) * duration;
                     newSepVelocity =
                       (if accCausedSepVelocity < Num 0 then
                          (let n = newSepVelocity + restitution c * accCausedSepVelocity
                           in if n < Num 0 then Num 0 else n)
                        else newSepVelocity);
                     deltaVelocity = newSepVelocity - separatingVelocity;
                     totalInverseMass =
                       (case particles1 c of
                          None \<Rightarrow> getInverseMass (h r0)
                        | Some r1 \<Rightarrow> getInverseMass (h r0) + getInverseMass (h r1))
                 in if totalInverseMass \<le> Num 0 then Inr h
                    else
                      let impulse = deltaVelocity / totalInverseMass;
                          impulsePerIMass = vec3_scale (contactNormal c) impulse;
                          newVelocity = vec3_scaleAndAdd (velocity (h r0)) impulsePerIMass
                                          (getInverseMass (h r0));
                          h1 = h(r0 := (h r0)\<lparr> velocity := newVelocity \<rparr>)
                      in (case particles1 c of
                            None \<Rightarrow> Inr h1
                          | Some r1 \<Rightarrow>
                              Inr (h1(r1 := (h1 r1)\<lparr> velocity :=
                                     vec3_scaleAndAdd (velocity (h1 r1)) impulsePerIMass
                                       (- getInverseMass (h1 r1)) \<rparr>)))))"

text \<open>\<open>resolveInterpenetration\<close> never writes \<open>penetration\<close>; \<open>duration\<close> is not used.\<close>

definition resolveInterpenetration ::
  "store \<Rightarrow> ParticleContact \<Rightarrow> number \<Rightarrow> error + store \<times> ParticleContact" where
  "resolveInterpenetration h c duration =
     (if penetration c \<le> Num 0 then Inr (h, c)
      else
        (case particles0 c of
           None \<Rightarrow> Inl TypeError
         | Some r0 \<Rightarrow>
             let totalInverseMass =
                   (case particles1 c of
                      None \<Rightarrow> getInverseMass (h r0)
                    | Some r1 \<Rightarrow> getInverseMass (h r0) + getInverseMass (h r1))
             in if totalInverseMass \<le> Num 0 then Inr (h, c)
                else
                  let movePerIMass = vec3_scale (contactNormal c) (penetration c / totalInverseMass);
                      move0 = vec3_scale movePerIMass (getInverseMass (h r0))
                  in (case particles1 c of
                        Some r1 \<Rightarrow>
                          let move1 = vec3_scale movePerIMass (- getInverseMass (h r1));
                              h1 = h(r0 := (h r0)\<lparr> position := vec3_add (position (h r0)) move0 \<rparr>);
                              h2 = h1(r1 := (h1 r1)\<lparr> position := vec3_add (position (h1 r1)) move1 \<rparr>)
                          in Inr (h2, c\<lparr> particleMovement0 := Some move0,
                                         particleMovement1 := Some move1 \<rparr>)
                      | None \<Rightarrow>
                          (case particleMovement1 c of
                             None \<Rightarrow> Inl TypeError
                           | Some old \<Rightarrow>
                               Inr (h(r0 := (h r0)\<lparr> position := vec3_add (position (h r0)) move0 \<rparr>),
                                    c\<lparr> particleMovement0 := Some move0,
                                       particleMovement1 := Some (Num 0, Num 0, Num 0) \<rparr>)))))"

definition resolve :: "store \<Rightarrow> ParticleContact \<Rightarrow> number \<Rightarrow> error + store \<times> ParticleContact" where
  "resolve h c duration =
     (case resolveVelocity h c duration of
        Inl e \<Rightarrow> Inl e
      | Inr h1 \<Rightarrow> resolveInterpenetration h1 c duration)"

section \<open>Contact resolver\<close>

text \<open>
  \<open>iterations\<close> and \<open>iterationsUsed\<close> are declared without a value; the constructor takes
  an argument and stores nothing. A count is a natural number; \<open>None\<close> is \<open>undefined\<close>, and
  \<open>n < undefined\<close> is false.
\<close>

record ParticleContactResolver =
  iterations :: "nat option"
  iterationsUsed :: "nat option"


text \<open>
  The first loop of an iteration: the index of the contact to resolve, \<open>numContacts\<close> when
  there is none. It stops at the end of the array as well as at \<open>numContacts\<close>.
\<close>

function findMax ::
  "store \<Rightarrow> ParticleContact list \<Rightarrow> nat \<Rightarrow> nat \<Rightarrow> number \<Rightarrow> nat \<Rightarrow> error + nat" where
  "findMax h contactArray numContacts i mx maxIndex =
     (if i < numContacts \<and> i < length contactArray then
        (case calculateSeparatingVelocity h (contactArray ! i) of
           Inl e \<Rightarrow> Inl e
         | Inr sepVel \<Rightarrow>
             if sepVel < mx \<and> (sepVel < Num 0 \<or> Num 0 < penetration (contactArray ! i))
             then findMax h contactArray numContacts (Suc i) sepVel i
             else findMax h contactArray numContacts (Suc i) mx maxIndex)
      else Inr maxIndex)"
  by pat_completeness auto
termination
  by (relation "measure (\<lambda>(h, contactArray, numContacts, i, mx, maxIndex). numContacts - i)") auto

text \<open>
  The body of the second loop, for one contact \<open>c\<close> of the array and the resolved contact
  \<open>mc\<close> (whose \<open>particleMovement\<close> the source calls \<open>move\<close>): three groups of tests, the
  second and the third under the test that \<open>c\<close> has a second particle.
\<close>

definition subMove :: "ParticleContact \<Rightarrow> vec3 option \<Rightarrow> error + ParticleContact" where
  "subMove c mv =
     (case mv of
        None \<Rightarrow> Inl TypeError
      | Some v \<Rightarrow> Inr (c\<lparr> penetration := penetration c - vec3_dot v (contactNormal c) \<rparr>))"

definition addMove :: "ParticleContact \<Rightarrow> vec3 option \<Rightarrow> error + ParticleContact" where
  "addMove c mv =
     (case mv of
        None \<Rightarrow> Inl TypeError
      | Some v \<Rightarrow> Inr (c\<lparr> penetration := penetration c + vec3_dot v (contactNormal c) \<rparr>))"

definition updateFirst :: "ParticleContact \<Rightarrow> ParticleContact \<Rightarrow> error + ParticleContact" where
  "updateFirst mc c =
     (if particles0 c = particles0 mc then subMove c (particleMovement0 mc)
      else if particles0 c = particles1 mc then subMove c (particleMovement1 mc)
      else Inr c)"

definition updateSecond :: "ParticleContact \<Rightarrow> ParticleContact \<Rightarrow> error + ParticleContact" where
  "updateSecond mc c =
     (if particles1 c = particles0 mc then subMove c (particleMovement0 mc)
      else if particles0 c = particles1 mc then subMove c (particleMovement1 mc)
      else Inr c)"

definition updateThird :: "ParticleContact \<Rightarrow> ParticleContact \<Rightarrow> error + ParticleContact" where
  "updateThird mc c =
     (if particles1 c \<noteq> None then
        (if particles1 c = particles0 mc then addMove c (particleMovement0 mc)
         else if particles1 c = particles1 mc then addMove c (particleMovement1 mc)
         else Inr c)
      else Inr c)"

definition updateInterpenetration :: "ParticleContact \<Rightarrow> ParticleContact \<Rightarrow> error + ParticleContact" where
  "updateInterpenetration mc c =
     (case updateFirst mc c of
        Inl e \<Rightarrow> Inl e
      | Inr c1 \<Rightarrow>
          if particles1 c1 \<noteq> None then
            (case updateSecond mc c1 of
               Inl e \<Rightarrow> Inl e
             | Inr c2 \<Rightarrow> updateThird mc c2)
          else Inr c1)"

text \<open>
  The second loop runs to \<open>numContacts\<close> without looking at the length of the array:
  beyond the end it reads \<open>particles\<close> of \<open>undefined\<close>. The resolved contact is an element
  of the array; the loop writes its \<open>penetration\<close> only, and reads its \<open>particles\<close> and
  \<open>particleMovement\<close>.
\<close>

function updateInterpenetrations ::
  "ParticleContact \<Rightarrow> ParticleContact list \<Rightarrow> nat \<Rightarrow> nat \<Rightarrow> error + ParticleContact list" where
  "updateInterpenetrations mc contactArray numContacts i =
     (if i < numContacts then
        (if i < length contactArray then
           (case updateInterpenetration mc (contactArray ! i) of
              Inl e \<Rightarrow> Inl e
            | Inr c \<Rightarrow> updateInterpenetrations mc (contactArray[i := c]) numContacts (Suc i))
         else Inl TypeError)
      else Inr contactArray)"
  by pat_completeness auto
termination
  by (relation "measure (\<lambda>(mc, contactArray, numContacts, i). numContacts - i)") auto

text \<open>The \<open>while\<close> loop, \<open>used\<close> being \<open>iterationsUsed\<close> and \<open>its\<close> a defined \<open>iterations\<close>.\<close>

function resolveLoop ::
  "nat \<Rightarrow> nat \<Rightarrow> store \<Rightarrow> ParticleContact list \<Rightarrow> nat \<Rightarrow> number \<Rightarrow>
   error + nat \<times> store \<times> ParticleContact list" where
  "resolveLoop its used h contactArray numContacts duration =
     (if used < its then
        (case findMax h contactArray numContacts 0 PInf numContacts of
           Inl e \<Rightarrow> Inl e
         | Inr maxIndex \<Rightarrow>
             if maxIndex = numContacts then Inr (used, h, contactArray)
             else
               (case resolve h (contactArray ! maxIndex) duration of
                  Inl e \<Rightarrow> Inl e
                | Inr (h1, mc) \<Rightarrow>
                    (case updateInterpenetrations mc (contactArray[maxIndex := mc]) numContacts 0 of
                       Inl e \<Rightarrow> Inl e
                     | Inr contactArray1 \<Rightarrow>
                         resolveLoop its (Suc used) h1 contactArray1 numContacts duration)))
      else Inr (used, h, contactArray))"
  by pat_completeness auto
termination
  by (relation "measure (\<lambda>(its, used, h, contactArray, numContacts, duration). its - used)") auto

definition resolveContacts ::
  "ParticleContactResolver \<Rightarrow> store \<Rightarrow> ParticleContact list \<Rightarrow> nat \<Rightarrow> number \<Rightarrow>
   error + ParticleContactResolver \<times> store \<times> ParticleContact list" where
  "resolveContacts r h contactArray numContacts duration =
     (case iterations r of
        None \<Rightarrow> Inr (r\<lparr> iterationsUsed := Some 0 \<rparr>, h, contactArray)
      | Some its \<Rightarrow>
          (case resolveLoop its 0 h contactArray numContacts duration of
             Inl e \<Rightarrow> Inl e
           | Inr (used, h1, contactArray1) \<Rightarrow>
               Inr (r\<lparr> iterationsUsed := Some used \<rparr>, h1, contactArray1)))"

text \<open>
  The penetration of \<open>c\<close> after the first and the third group of tests of the second
  loop: the movement of the resolved contact's matching particle, along the normal of
  \<open>c\<close>, is taken off for the first particle of \<open>c\<close> and put on for its second particle
  (the normal of a contact points from its second particle to its first).
\<close>

definition coupledPenetration ::
  "ParticleContact \<Rightarrow> vec3 \<Rightarrow> vec3 \<Rightarrow> ParticleContact \<Rightarrow> number" where
  "coupledPenetration mc move0 move1 c =
     (let p = (if particles0 c = particles0 mc
               then penetration c - vec3_dot move0 (contactNormal c)
               else if particles0 c = particles1 mc
               then penetration c - vec3_dot move1 (contactNormal c)
               else penetration c)
      in if particles1 c = None then p
         else if particles1 c = particles0 mc then p + vec3_dot move0 (contactNormal c)
         else if particles1 c = particles1 mc then p + vec3_dot move1 (contactNormal c)
         else p)"

text \<open>
  The penetration as the specification words the coupling step, for comparison: for each
  of the two particles of \<open>c\<close> that is a particle of the resolved contact, the dot product
  of that particle's movement with the normal of \<open>c\<close> is subtracted, once.
\<close>

definition claimedPenetration ::
  "ParticleContact \<Rightarrow> vec3 \<Rightarrow> vec3 \<Rightarrow> ParticleContact \<Rightarrow> number" where
  "claimedPenetration mc move0 move1 c =
     (let p = (if particles0 c = None then penetration c
               else if particles0 c = particles0 mc
               then penetration c - vec3_dot move0 (contactNormal c)
               else if particles0 c = particles1 mc
               then penetration c - vec3_dot move1 (contactNormal c)
               else penetration c)
      in if particles1 c = None then p
         else if particles1 c = particles0 mc then p - vec3_dot move0 (contactNormal c)
         else if particles1 c = particles1 mc then p - vec3_dot move1 (contactNormal c)
         else p)"

declare findMax.simps [simp del] updateInterpenetrations.simps [simp del]
  resolveLoop.simps [simp del]

section \<open>States of the examples\<close>

text \<open>A particle of mass 2 and a gravity of 10 downwards.\<close>

definition heavy_particle :: Particle where
  "heavy_particle = new_Particle\<lparr> inverseMass := Num (1 / 2) \<rparr>"

definition earth_gravity :: ParticleGravity where
  "earth_gravity = \<lparr> gravity = (Num 0, Num (- 10), Num 0) \<rparr>"

text \<open>A particle of mass 1 at rest, no damping, under a unit force.\<close>

definition pushed_particle :: Particle where
  "pushed_particle = new_Particle\<lparr> inverseMass := Num 1, damping := Num 1,
     forceAccum := (Num 1, Num 0, Num 0) \<rparr>"

text \<open>A fake spring with \<open>4 * springConstant - damping\<^sup>2 = - 5\<close>, and a particle of mass 1
  at rest one unit from its anchor.\<close>

definition stiff_spring :: ParticleFakeSpring where
  "stiff_spring = \<lparr> anchor = (Num 0, Num 0, Num 0), springConstant = Num 1,
     springDamping = Num 3 \<rparr>"

definition bob :: Particle where
  "bob = new_Particle\<lparr> inverseMass := Num 1, position := (Num 1, Num 0, Num 0) \<rparr>"

text \<open>Two particles of mass 1 closing on each other along the x axis at speed 1 each, and
  the contact between them as a generator fills it in, touching (penetration 0, restitution
  0), the movements never set; a resolver allowed one iteration.\<close>

definition two_particles :: store where
  "two_particles = (\<lambda>r. new_Particle)
      (0 := new_Particle\<lparr> inverseMass := Num 1, velocity := (Num (- 1), Num 0, Num 0) \<rparr>,
       1 := new_Particle\<lparr> inverseMass := Num 1, velocity := (Num 1, Num 0, Num 0) \<rparr>)"

definition closing_contact :: ParticleContact where
  "closing_contact = new_ParticleContact\<lparr> particles0 := Some 0, particles1 := Some 1,
     restitution := Num 0, contactNormal := (Num 1, Num 0, Num 0), penetration := Num 0 \<rparr>"

definition resolver1 :: ParticleContactResolver where
  "resolver1 = \<lparr> iterations = Some 1, iterationsUsed = None \<rparr>"

text \<open>The same pair the other way round, in a contact whose \<open>particleMovement\<close> still holds
  the vectors of an earlier resolution along the opposite normal.\<close>

definition two_particles_rev :: store where
  "two_particles_rev = (\<lambda>r. new_Particle)
      (0 := new_Particle\<lparr> inverseMass := Num 1, velocity := (Num 1, Num 0, Num 0) \<rparr>,
       1 := new_Particle\<lparr> inverseMass := Num 1, velocity := (Num (- 1), Num 0, Num 0) \<rparr>)"

definition stale_contact :: ParticleContact where
  "stale_contact = closing_contact\<lparr> contactNormal := (Num (- 1), Num 0, Num 0),
     particleMovement0 := Some (Num (1 / 20), Num 0, Num 0),
     particleMovement1 := Some (Num (- (1 / 20)), Num 0, Num 0) \<rparr>"

text \<open>Two particles of mass 1 at rest that overlap by \<open>1/5\<close> along the x axis: their
  contact as generated, the same contact after its resolution, and a contact of the first
  particle with the scenery.\<close>

definition resting_pair :: store where
  "resting_pair = (\<lambda>r. new_Particle)
      (0 := new_Particle\<lparr> inverseMass := Num 1 \<rparr>, 1 := new_Particle\<lparr> inverseMass := Num 1 \<rparr>)"

definition overlap_contact :: ParticleContact where
  "overlap_contact = new_ParticleContact\<lparr> particles0 := Some 0, particles1 := Some 1,
     restitution := Num 0, contactNormal := (Num 1, Num 0, Num 0),
     penetration := Num (1 / 5) \<rparr>"

definition resolved_contact :: ParticleContact where
  "resolved_contact = overlap_contact\<lparr>
     particleMovement0 := Some (Num (1 / 10), Num 0, Num 0),
     particleMovement1 := Some (Num (- (1 / 10)), Num 0, Num 0) \<rparr>"

definition floor_contact :: ParticleContact where
  "floor_contact = new_ParticleContact\<lparr> particles0 := Some 0, restitution := Num 0,
     contactNormal := (Num 1, Num 0, Num 0), penetration := Num (3 / 10) \<rparr>"

text \<open>A contact of the second particle of that pair (as its first) with a third particle.\<close>

definition chain_contact :: ParticleContact where
  "chain_contact = new_ParticleContact\<lparr> particles0 := Some 1, particles1 := Some 2,
     restitution := Num 0, contactNormal := (Num 1, Num 0, Num 0),
     penetration := Num (3 / 10) \<rparr>"

text \<open>A particle of mass 1 sunk \<open>1/10\<close> into the ground, in a contact whose second movement
  vector exists.\<close>

definition ground_particle :: store where
  "ground_particle = (\<lambda>r. new_Particle)(0 := new_Particle\<lparr> inverseMass := Num 1 \<rparr>)"

definition ground_contact :: ParticleContact where
  "ground_contact = new_ParticleContact\<lparr> particles0 := Some 0, restitution := Num 0,
     contactNormal := (Num 0, Num 1, Num 0), penetration := Num (1 / 10),
     particleMovement1 := Some (Num 0, Num 0, Num 0) \<rparr>"

text \<open>Rigid bodies: one that may sleep, awake and moving at speed 1; one asleep whose
  orientation was set to a quaternion of length 2; one whose orientation was set to zero;
  one just woken; one spinning about the z axis without damping.\<close>

definition moving_body :: RigidBody where
  "moving_body = new_RigidBody\<lparr> isAwake := True, canSleep := True,
     body_velocity := (Num 1, Num 0, Num 0) \<rparr>"

definition stretched_body :: RigidBody where
  "stretched_body = new_RigidBody\<lparr> orientation := (Num 0, Num 0, Num 0, Num 2) \<rparr>"

definition collapsed_body :: RigidBody where
  "collapsed_body = new_RigidBody\<lparr> orientation := (Num 0, Num 0, Num 0, Num 0) \<rparr>"

definition awake_body :: RigidBody where
  "awake_body = new_RigidBody\<lparr> isAwake := True \<rparr>"

definition spinning_body :: RigidBody where
  "spinning_body = new_RigidBody\<lparr> isAwake := True, rotation := (Num 0, Num 0, Num 2),
     angularDamping := Num 1 \<rparr>"

section \<open>Properties\<close>

lemmas resolver_evals =
  resolveContacts_def resolveLoop.simps findMax.simps updateInterpenetrations.simps
  calculateSeparatingVelocity_def resolve_def resolveVelocity_def resolveInterpenetration_def
  updateInterpenetration_def updateFirst_def updateSecond_def updateThird_def subMove_def
  addMove_def new_Particle_def new_ParticleContact_def vec3_create_def getInverseMass_def
  Let_def minus_number_def

subsection \<open>Mass\<close>

text \<open>
  C8. \<open>hasFiniteMass()\<close> is claimed to be true exactly when \<open>inverseMass > 0\<close>, and false
  at \<open>inverseMass == 0\<close>. The code compares with \<open>>=\<close>: a particle and a rigid body as
  constructed, with inverse mass 0, have finite mass by \<open>hasFiniteMass\<close> while \<open>getMass\<close>
  gives them the mass \<open>Infinity\<close>.
\<close>

theorem hasFiniteMass_at_zero:
  "hasFiniteMass new_Particle \<and> getMass new_Particle = PInf \<and>
   RigidBody_hasFiniteMass new_RigidBody \<and> RigidBody_getMass new_RigidBody = PInf"
  by (simp add: hasFiniteMass_def getMass_def new_Particle_def eq_number_def
        RigidBody_hasFiniteMass_def RigidBody_getMass_def new_RigidBody_def)

subsection \<open>Particle integration\<close>

text \<open>
  C6. \<open>Particle.integrate\<close> is claimed to leave the particle's \<open>acceleration\<close> as it was.
  The code writes the acceleration of the step, \<open>acceleration + forceAccum * inverseMass\<close>,
  into the field: a particle of mass 1 with no acceleration and a unit force has the
  acceleration \<open>(1, 0, 0)\<close> after one step.
\<close>

theorem integrate_writes_acceleration:
  "Particle_integrate pushed_particle (Num 1) =
     pushed_particle\<lparr> acceleration := (Num 1, Num 0, Num 0),
       velocity := (Num 1, Num 0, Num 0), forceAccum := (Num 0, Num 0, Num 0) \<rparr>"
  by (simp add: Particle_integrate_def pushed_particle_def new_Particle_def vec3_create_def
      clearAccumulator_def Let_def)

subsection \<open>Force generators\<close>

text \<open>
  C7. \<open>ParticleGravity.updateForce\<close> is claimed to add \<open>gravity * mass\<close> to the force
  accumulator of a particle of finite mass, nothing to one of infinite mass, and to keep
  its own vector. The code adds \<open>gravity * duration\<close> and stores that product as its
  vector: with gravity \<open>(0, -10, 0)\<close> and half a second, a particle of mass 2 receives
  \<open>(0, -5, 0)\<close>, not \<open>(0, -20, 0)\<close>, a particle of inverse mass 0 receives the same, and
  the generator is left with \<open>(0, -5, 0)\<close>.
\<close>

theorem gravity_updateForce_rescales:
  "ParticleGravity_updateForce earth_gravity heavy_particle (Num (1 / 2)) =
     (\<lparr> gravity = (Num 0, Num (- 5), Num 0) \<rparr>,
      heavy_particle\<lparr> forceAccum := (Num 0, Num (- 5), Num 0) \<rparr>) \<and>
   ParticleGravity_updateForce earth_gravity new_Particle (Num (1 / 2)) =
     (\<lparr> gravity = (Num 0, Num (- 5), Num 0) \<rparr>,
      new_Particle\<lparr> forceAccum := (Num 0, Num (- 5), Num 0) \<rparr>)"
  by (simp add: ParticleGravity_updateForce_def earth_gravity_def heavy_particle_def
      hasFiniteMass_def new_Particle_def addForce_def vec3_create_def Let_def)

text \<open>
  C9. \<open>ParticleFakeSpring.updateForce\<close> is claimed to do nothing when
  \<open>4 * springConstant - damping\<^sup>2\<close> is not positive. The code returns when \<open>gamma === 0\<close>,
  which covers the discriminant 0; of a negative discriminant the square root is NaN,
  the test is false, and NaN is added to the force accumulator.
\<close>

theorem fakeSpring_negative_discriminant:
  "ParticleFakeSpring_updateForce stiff_spring bob (Num 1) =
     bob\<lparr> forceAccum := (NaN, NaN, NaN) \<rparr>"
  by (simp add: ParticleFakeSpring_updateForce_def stiff_spring_def bob_def new_Particle_def
      vec3_create_def hasFiniteMass_def eq_number_def addForce_def getMass_def Let_def
      minus_number_def)

text \<open>When the discriminant is 0 the square root is 0 and the call does return at once.\<close>

lemma fakeSpring_zero_discriminant:
  assumes "Num 4 * springConstant fs - springDamping fs * springDamping fs = Num 0"
  shows "ParticleFakeSpring_updateForce fs particle duration = particle"
  using assms by (simp add: ParticleFakeSpring_updateForce_def Let_def eq_number_def)

subsection \<open>Contact resolver\<close>


text \<open>
  C2. A batch of disjoint contacts between particles of finite mass, resolved with as many
  iterations as contacts, is claimed to end with no contact closing and none penetrating.
  A single contact between two particles that touch and close is chosen and its
  velocities are resolved; \<open>resolveInterpenetration\<close> returns at once, since nothing
  penetrates, and records no movement; the loop that updates the penetrations then takes
  the dot product of \<open>move[0]\<close>, which is \<open>undefined\<close>. The call raises.
\<close>

theorem resolveContacts_touching_contact_raises:
  "resolveContacts resolver1 two_particles [closing_contact] 1 (Num 1) = Inl TypeError"
  by (simp add: resolver_evals two_particles_def closing_contact_def resolver1_def)

text \<open>
  With movements left in the contact by an earlier resolution the call returns, and the
  contact, which did not penetrate, penetrates by \<open>1/10\<close> when the only iteration is used.
\<close>

lemma resolveContacts_stale_movement:
  "resolveContacts resolver1 two_particles_rev [stale_contact] 1 (Num 1) =
     Inr (resolver1\<lparr> iterationsUsed := Some 1 \<rparr>,
          (\<lambda>r. new_Particle)(0 := new_Particle\<lparr> inverseMass := Num 1 \<rparr>,
                             1 := new_Particle\<lparr> inverseMass := Num 1 \<rparr>),
          [stale_contact\<lparr> penetration := Num (1 / 10) \<rparr>])"
  by (simp add: resolver_evals stale_contact_def two_particles_rev_def closing_contact_def
      resolver1_def fun_upd_twist)

subsection \<open>Interpenetration of one contact\<close>

text \<open>
  C3. A particle of mass 1 against the scenery, a unit normal and penetration \<open>1/10\<close>: one
  \<open>resolveInterpenetration\<close> is claimed to move the particle by \<open>1/10\<close> along the normal,
  to record a zero movement for the absent particle and to leave a penetration of about 0.
  The function does not write \<open>penetration\<close> (the resolver's second loop does): it is
  \<open>1/10\<close> afterwards.
\<close>

theorem resolveInterpenetration_keeps_penetration:
  "\<not> isl (resolveInterpenetration ground_particle ground_contact (Num 1)) \<and>
   penetration (snd (projr (resolveInterpenetration ground_particle ground_contact (Num 1)))) =
     Num (1 / 10)"
  by (simp add: resolveInterpenetration_def ground_contact_def ground_particle_def
      new_ParticleContact_def new_Particle_def vec3_create_def getInverseMass_def Let_def)

text \<open>
  C3, amended. When the contact holds a second movement vector, the call moves the
  particle by \<open>1/10\<close> of the normal, which is \<open>1/10\<close> along it, records that movement and a
  zero movement for the absent particle, and changes nothing else: the penetration stays
  \<open>1/10\<close>.
\<close>

theorem resolveInterpenetration_scenery:
  assumes "particles0 c = Some r" and "particles1 c = None"
    and "inverseMass (h r) = Num 1"
    and "contactNormal c = (Num nx, Num ny, Num nz)" and "nx * nx + ny * ny + nz * nz = 1"
    and "penetration c = Num (1 / 10)"
    and "particleMovement1 c = Some old"
    and "position (h r) = (Num px, Num py, Num pz)"
  shows "resolveInterpenetration h c duration =
      Inr (h(r := (h r)\<lparr> position :=
                    (Num (px + nx / 10), Num (py + ny / 10), Num (pz + nz / 10)) \<rparr>),
           c\<lparr> particleMovement0 := Some (Num (nx / 10), Num (ny / 10), Num (nz / 10)),
              particleMovement1 := Some (Num 0, Num 0, Num 0) \<rparr>) \<and>
    vec3_dot (Num (nx / 10), Num (ny / 10), Num (nz / 10)) (contactNormal c) = Num (1 / 10)"
proof -
  have "nx / 10 * nx + ny / 10 * ny + nz / 10 * nz = (nx * nx + ny * ny + nz * nz) / 10"
    by (simp add: add_divide_distrib)
  then have d: "nx / 10 * nx + ny / 10 * ny + nz / 10 * nz = 1 / 10"
    using assms(5) by simp
  show ?thesis
    using assms(1-4,6-8) d
    by (simp add: resolveInterpenetration_def getInverseMass_def Let_def)
qed

theorem resolveInterpenetration_scenery_witness:
  "particles0 ground_contact = Some 0 \<and> particles1 ground_contact = None \<and>
   inverseMass (ground_particle 0) = Num 1 \<and>
   contactNormal ground_contact = (Num 0, Num 1, Num 0) \<and>
   (0::real) * 0 + 1 * 1 + 0 * 0 = 1 \<and>
   penetration ground_contact = Num (1 / 10) \<and>
   particleMovement1 ground_contact = Some (Num 0, Num 0, Num 0) \<and>
   position (ground_particle 0) = (Num 0, Num 0, Num 0) \<and>
   resolveInterpenetration ground_particle ground_contact (Num 1) =
      Inr (ground_particle(0 := (ground_particle 0)\<lparr> position := (Num 0, Num (1 / 10), Num 0) \<rparr>),
           ground_contact\<lparr> particleMovement0 := Some (Num 0, Num (1 / 10), Num 0),
              particleMovement1 := Some (Num 0, Num 0, Num 0) \<rparr>)"
  using resolveInterpenetration_scenery
          [of ground_contact 0 ground_particle 0 1 0 "(Num 0, Num 0, Num 0)" 0 0 0 "Num 1"]
  by (simp add: ground_contact_def ground_particle_def new_ParticleContact_def new_Particle_def
      vec3_create_def)

text \<open>
  A contact as constructed has no second movement vector, and the call raises before the
  particle is moved.
\<close>

lemma resolveInterpenetration_fresh_scenery_contact:
  "resolveInterpenetration ground_particle (ground_contact\<lparr> particleMovement1 := None \<rparr>) (Num 1) =
     Inl TypeError"
  by (simp add: resolveInterpenetration_def ground_contact_def ground_particle_def
      new_ParticleContact_def new_Particle_def vec3_create_def getInverseMass_def Let_def)

subsection \<open>The second loop of the resolver\<close>

lemmas update_defs = updateInterpenetration_def updateFirst_def updateSecond_def
  updateThird_def subMove_def addMove_def

lemma updateInterpenetration_Inr:
  assumes "particleMovement0 mc = Some move0" and "particleMovement1 mc = Some move1"
  shows "\<exists>p. updateInterpenetration mc c = Inr (c\<lparr> penetration := p \<rparr>)"
proof -
  have "\<exists>p. c = c\<lparr> penetration := p \<rparr>"
    by (rule exI [of _ "penetration c"]) simp
  then show ?thesis
    using assms by (auto simp add: update_defs)
qed

text \<open>When the second group of tests finds nothing, the first and the third remain.\<close>

lemma updateInterpenetration_coupled:
  assumes "particleMovement0 mc = Some move0" and "particleMovement1 mc = Some move1"
    and "particles1 c = None \<or> (particles1 c \<noteq> particles0 mc \<and> particles0 c \<noteq> particles1 mc)"
  shows "updateInterpenetration mc c =
           Inr (c\<lparr> penetration := coupledPenetration mc move0 move1 c \<rparr>)"
  using assms by (auto simp add: update_defs coupledPenetration_def)

text \<open>The loop from index \<open>i\<close> applies its body to the contacts from \<open>i\<close> up to \<open>numContacts\<close>.\<close>

lemma updateInterpenetrations_from:
  "particleMovement0 mc = Some move0 \<Longrightarrow> particleMovement1 mc = Some move1 \<Longrightarrow>
   numContacts \<le> length contactArray \<Longrightarrow>
   \<exists>res. updateInterpenetrations mc contactArray numContacts i = Inr res \<and>
     length res = length contactArray \<and>
     (\<forall>j<length contactArray. res ! j =
        (if i \<le> j \<and> j < numContacts then projr (updateInterpenetration mc (contactArray ! j))
         else contactArray ! j))"
proof (induction mc contactArray numContacts i rule: updateInterpenetrations.induct)
  case (1 mc contactArray numContacts i)
  note moves = "1.prems"(1,2)
  show ?case
  proof (cases "i < numContacts")
    case False
    then show ?thesis
      by (subst updateInterpenetrations.simps) auto
  next
    case True
    with "1.prems" have inside: "i < length contactArray" by simp
    obtain p where body: "updateInterpenetration mc (contactArray ! i) =
        Inr ((contactArray ! i)\<lparr> penetration := p \<rparr>)"
      using updateInterpenetration_Inr [OF moves] by blast
    let ?c = "(contactArray ! i)\<lparr> penetration := p \<rparr>"
    from "1.IH" [OF True inside body moves] "1.prems"(3)
    obtain res where rest:
      "updateInterpenetrations mc (contactArray[i := ?c]) numContacts (Suc i) = Inr res"
      "length res = length contactArray"
      "\<forall>j<length contactArray. res ! j =
         (if Suc i \<le> j \<and> j < numContacts
          then projr (updateInterpenetration mc (contactArray[i := ?c] ! j))
          else contactArray[i := ?c] ! j)"
      by auto
    have "updateInterpenetrations mc contactArray numContacts i = Inr res"
      by (subst updateInterpenetrations.simps) (simp add: True inside body rest(1))
    moreover have "\<forall>j<length contactArray. res ! j =
         (if i \<le> j \<and> j < numContacts then projr (updateInterpenetration mc (contactArray ! j))
          else contactArray ! j)"
    proof (intro allI impI)
      fix j
      assume j: "j < length contactArray"
      show "res ! j = (if i \<le> j \<and> j < numContacts
          then projr (updateInterpenetration mc (contactArray ! j)) else contactArray ! j)"
      proof (cases "j = i")
        case True
        then show ?thesis
          using rest(3) j body \<open>i < numContacts\<close> by simp
      next
        case False
        then show ?thesis
          using rest(3) j by auto
      qed
    qed
    ultimately show ?thesis
      using rest(2) by blast
  qed
qed

lemma two_elements: "length xs = 2 \<Longrightarrow> xs = [xs ! 0, xs ! 1]"
  by (auto simp add: numeral_2_eq_2 length_Suc_conv)

text \<open>The two contacts of the example below.\<close>

lemma resolved_contact_particles:
  "particles1 resolved_contact \<noteq> particles0 resolved_contact \<and>
   particles0 resolved_contact \<noteq> particles1 resolved_contact"
  by (simp add: resolved_contact_def overlap_contact_def new_ParticleContact_def)

lemma floor_contact_particles: "particles1 floor_contact = None"
  by (simp add: floor_contact_def new_ParticleContact_def)

lemma coupled_resolved_contact:
  "coupledPenetration resolved_contact (Num (1 / 10), Num 0, Num 0)
     (Num (- (1 / 10)), Num 0, Num 0) resolved_contact = Num 0"
  by (simp add: coupledPenetration_def resolved_contact_def overlap_contact_def
      new_ParticleContact_def vec3_create_def minus_number_def)

lemma coupled_floor_contact:
  "coupledPenetration resolved_contact (Num (1 / 10), Num 0, Num 0)
     (Num (- (1 / 10)), Num 0, Num 0) floor_contact = Num (1 / 5)"
  by (simp add: coupledPenetration_def resolved_contact_def overlap_contact_def
      floor_contact_def new_ParticleContact_def vec3_create_def minus_number_def)

text \<open>
  C1. After the chosen contact is resolved, every contact is claimed to have its
  penetration decreased by the dot product of a movement of the resolved contact with its
  own normal, once for each of its two particles that is a particle of the resolved
  contact, and changed in no other way. Two resting particles of mass 1 that overlap by
  \<open>1/5\<close>, resolved in one iteration: the movements are \<open>1/10\<close> and \<open>-1/10\<close> along the normal;
  the code takes the first off and puts the second on, leaving penetration 0, where two
  subtractions leave \<open>1/5\<close>.
\<close>

theorem coupling_adds_for_second_particle:
  "resolveContacts resolver1 resting_pair [overlap_contact] 1 (Num 1) =
     Inr (resolver1\<lparr> iterationsUsed := Some 1 \<rparr>,
          (\<lambda>r. new_Particle)
            (0 := new_Particle\<lparr> inverseMass := Num 1,
                                  position := (Num (1 / 10), Num 0, Num 0) \<rparr>,
             1 := new_Particle\<lparr> inverseMass := Num 1,
                                  position := (Num (- (1 / 10)), Num 0, Num 0) \<rparr>),
          [resolved_contact\<lparr> penetration := Num 0 \<rparr>]) \<and>
   claimedPenetration resolved_contact (Num (1 / 10), Num 0, Num 0)
     (Num (- (1 / 10)), Num 0, Num 0) resolved_contact = Num (1 / 5)"
  by (simp add: resolver_evals resting_pair_def overlap_contact_def resolved_contact_def
      resolver1_def claimedPenetration_def fun_upd_twist)

text \<open>
  C1, amended. With both movements of the resolved contact \<open>mc\<close> recorded, the second loop
  returns an array of the same length in which every contact is the given one except, at
  most, for its penetration, and which equals the given array from \<open>numContacts\<close> on. A
  contact below \<open>numContacts\<close> that has no second particle, or whose second particle is not
  the first of \<open>mc\<close> and whose first is not the second of \<open>mc\<close>, has the penetration
  \<open>coupledPenetration\<close>: decreased by the movement, along the contact's normal, of the
  particle of \<open>mc\<close> that is its first particle, and increased by that of the particle of
  \<open>mc\<close> that is its second particle. (For the other contacts below \<open>numContacts\<close> the second
  group of tests of the loop applies as well; nothing is said of the value of their
  penetration.)
\<close>

theorem updateInterpenetrations_effect:
  assumes "numContacts \<le> length contactArray"
    and "particleMovement0 mc = Some move0" and "particleMovement1 mc = Some move1"
  shows "\<exists>res. updateInterpenetrations mc contactArray numContacts 0 = Inr res \<and>
      length res = length contactArray \<and>
      (\<forall>i<length contactArray.
         (\<exists>p. res ! i = (contactArray ! i)\<lparr> penetration := p \<rparr>) \<and>
         (numContacts \<le> i \<longrightarrow> res ! i = contactArray ! i) \<and>
         (i < numContacts \<and>
          (particles1 (contactArray ! i) = None \<or>
           particles1 (contactArray ! i) \<noteq> particles0 mc \<and>
           particles0 (contactArray ! i) \<noteq> particles1 mc) \<longrightarrow>
          res ! i = (contactArray ! i)\<lparr> penetration :=
                      coupledPenetration mc move0 move1 (contactArray ! i) \<rparr>))"
proof -
  from updateInterpenetrations_from [OF assms(2,3) assms(1), of 0]
  obtain res where r: "updateInterpenetrations mc contactArray numContacts 0 = Inr res"
    "length res = length contactArray"
    "\<forall>j<length contactArray. res ! j =
       (if 0 \<le> j \<and> j < numContacts then projr (updateInterpenetration mc (contactArray ! j))
        else contactArray ! j)"
    by blast
  have "(\<exists>p. res ! i = (contactArray ! i)\<lparr> penetration := p \<rparr>) \<and>
         (numContacts \<le> i \<longrightarrow> res ! i = contactArray ! i) \<and>
         (i < numContacts \<and>
          (particles1 (contactArray ! i) = None \<or>
           particles1 (contactArray ! i) \<noteq> particles0 mc \<and>
           particles0 (contactArray ! i) \<noteq> particles1 mc) \<longrightarrow>
          res ! i = (contactArray ! i)\<lparr> penetration :=
                      coupledPenetration mc move0 move1 (contactArray ! i) \<rparr>)"
    if i: "i < length contactArray" for i
  proof (cases "i < numContacts")
    case True
    obtain p where body: "updateInterpenetration mc (contactArray ! i) =
        Inr ((contactArray ! i)\<lparr> penetration := p \<rparr>)"
      using updateInterpenetration_Inr [OF assms(2,3)] by blast
    from r(3) i True have at_i: "res ! i = projr (updateInterpenetration mc (contactArray ! i))"
      by simp
    have frame: "\<exists>p. res ! i = (contactArray ! i)\<lparr> penetration := p \<rparr>"
      using at_i body by auto
    have coupled: "res ! i = (contactArray ! i)\<lparr> penetration :=
                      coupledPenetration mc move0 move1 (contactArray ! i) \<rparr>"
      if "particles1 (contactArray ! i) = None \<or>
           particles1 (contactArray ! i) \<noteq> particles0 mc \<and>
           particles0 (contactArray ! i) \<noteq> particles1 mc"
      using at_i updateInterpenetration_coupled [OF assms(2,3) that] by simp
    from frame coupled True show ?thesis by auto
  next
    case False
    with r(3) i have same: "res ! i = contactArray ! i"
      by simp
    have "contactArray ! i = (contactArray ! i)\<lparr> penetration := penetration (contactArray ! i) \<rparr>"
      by simp
    with same have "\<exists>p. res ! i = (contactArray ! i)\<lparr> penetration := p \<rparr>"
      by metis
    with same False show ?thesis by simp
  qed
  with r(1,2) show ?thesis by blast
qed

theorem updateInterpenetrations_effect_witness:
  "2 \<le> length [resolved_contact, floor_contact] \<and>
   particleMovement0 resolved_contact = Some (Num (1 / 10), Num 0, Num 0) \<and>
   particleMovement1 resolved_contact = Some (Num (- (1 / 10)), Num 0, Num 0) \<and>
   updateInterpenetrations resolved_contact [resolved_contact, floor_contact] 2 0 =
     Inr [resolved_contact\<lparr> penetration := Num 0 \<rparr>,
          floor_contact\<lparr> penetration := Num (1 / 5) \<rparr>]"
proof -
  have h: "2 \<le> length [resolved_contact, floor_contact]"
    "particleMovement0 resolved_contact = Some (Num (1 / 10), Num 0, Num 0)"
    "particleMovement1 resolved_contact = Some (Num (- (1 / 10)), Num 0, Num 0)"
    by (simp_all add: resolved_contact_def)
  from updateInterpenetrations_effect [OF h]
  obtain res where r:
    "updateInterpenetrations resolved_contact [resolved_contact, floor_contact] 2 0 = Inr res"
    "length res = length [resolved_contact, floor_contact]"
    and each: "\<forall>i<length [resolved_contact, floor_contact].
         (\<exists>p. res ! i = ([resolved_contact, floor_contact] ! i)\<lparr> penetration := p \<rparr>) \<and>
         (2 \<le> i \<longrightarrow> res ! i = [resolved_contact, floor_contact] ! i) \<and>
         (i < 2 \<and>
          (particles1 ([resolved_contact, floor_contact] ! i) = None \<or>
           particles1 ([resolved_contact, floor_contact] ! i) \<noteq> particles0 resolved_contact \<and>
           particles0 ([resolved_contact, floor_contact] ! i) \<noteq> particles1 resolved_contact) \<longrightarrow>
          res ! i = ([resolved_contact, floor_contact] ! i)\<lparr> penetration :=
                      coupledPenetration resolved_contact (Num (1 / 10), Num 0, Num 0)
                        (Num (- (1 / 10)), Num 0, Num 0)
                        ([resolved_contact, floor_contact] ! i) \<rparr>)"
    by blast
  from each [rule_format, of 0] resolved_contact_particles
  have first: "res ! 0 = resolved_contact\<lparr> penetration := Num 0 \<rparr>"
    by (simp add: coupled_resolved_contact)
  from each [rule_format, of 1] floor_contact_particles
  have second: "res ! 1 = floor_contact\<lparr> penetration := Num (1 / 5) \<rparr>"
    by (simp add: coupled_floor_contact)
  have "res = [res ! 0, res ! 1]"
    using r(2) by (intro two_elements) simp
  with first second
  have "res = [resolved_contact\<lparr> penetration := Num 0 \<rparr>,
               floor_contact\<lparr> penetration := Num (1 / 5) \<rparr>]"
    by simp
  with r(1) h show ?thesis by simp
qed

text \<open>
  The second group of tests repeats the second test of the first group: a contact whose
  first particle is the second particle of the resolved contact, and which has a second
  particle, has that particle's movement taken off twice (\<open>3/10 + 1/10 + 1/10\<close>).
\<close>

lemma updateInterpenetration_second_group:
  "updateInterpenetration resolved_contact chain_contact =
     Inr (chain_contact\<lparr> penetration := Num (1 / 2) \<rparr>) \<and>
   coupledPenetration resolved_contact (Num (1 / 10), Num 0, Num 0)
     (Num (- (1 / 10)), Num 0, Num 0) chain_contact = Num (2 / 5)"
  by (simp add: update_defs coupledPenetration_def resolved_contact_def overlap_contact_def
      chain_contact_def new_ParticleContact_def vec3_create_def minus_number_def)

subsection \<open>Rigid body: sleep\<close>

lemmas body_evals = RigidBody_integrate_def calculateDerivedData_def clearAccumulators_def
  setAwake_def sleepEpsilon_def transformInertiaTensor_def calculateTransformMatrix_def
  new_RigidBody_def vec3_create_def quat_create_def mat3_create_def mat4_create_def
  elem_def Let_def minus_number_def

text \<open>
  C4. For an awake body that may sleep, \<open>integrate\<close> is claimed to store
  \<open>bias * motion + (1 - bias) * currentMotion\<close> into \<open>motion\<close>, to put the body to sleep with
  velocity and rotation zeroed when that is below the threshold, and to clamp it at ten
  times the threshold. The code computes \<open>currentMotion\<close> and \<open>bias\<close> and uses neither, and
  \<open>setAwake(false)\<close> is empty: a body with motion 0 moving at speed 1, after a step of one
  second with the default damping, has motion 0 (not \<open>0.005\<close>), is awake, and moves at
  speed \<open>1/10\<close>.
\<close>

theorem integrate_sleep_bookkeeping:
  "motion (RigidBody_integrate moving_body (Num 1)) = Num 0 \<and>
   isAwake (RigidBody_integrate moving_body (Num 1)) \<and>
   body_velocity (RigidBody_integrate moving_body (Num 1)) = (Num (1 / 10), Num 0, Num 0)"
  by (simp add: body_evals moving_body_def)

subsection \<open>Rigid body: orientation\<close>

lemma isFinite_Num: "isFinite x \<Longrightarrow> \<exists>r. x = Num r"
  by (cases x) simp_all

lemma finite_vec3_Num: "finite_vec3 v \<Longrightarrow> \<exists>a b c. v = (Num a, Num b, Num c)"
  by (cases v) (auto dest: isFinite_Num)

lemma finite_quat_Num: "finite_quat q \<Longrightarrow> \<exists>x y z w. q = (Num x, Num y, Num z, Num w)"
  by (cases q) (auto dest: isFinite_Num)

lemma sum_of_four_squares_pos:
  fixes x y z w :: real
  assumes "(x, y, z, w) \<noteq> (0, 0, 0, 0)"
  shows "0 < x * x + y * y + z * z + w * w"
proof -
  have some: "x \<noteq> 0 \<or> y \<noteq> 0 \<or> z \<noteq> 0 \<or> w \<noteq> 0"
    using assms by simp
  have nonneg: "0 \<le> x * x" "0 \<le> y * y" "0 \<le> z * z" "0 \<le> w * w"
    by simp_all
  have pos: "x \<noteq> 0 \<Longrightarrow> 0 < x * x" "y \<noteq> 0 \<Longrightarrow> 0 < y * y"
    "z \<noteq> 0 \<Longrightarrow> 0 < z * z" "w \<noteq> 0 \<Longrightarrow> 0 < w * w"
    by (auto simp add: zero_less_mult_iff)
  from some nonneg pos show ?thesis by linarith
qed

text \<open>Normalising a finite quaternion other than zero gives a unit quaternion.\<close>

lemma quat_normalize_unit:
  assumes "(x, y, z, w) \<noteq> (0, 0, 0, 0)"
  shows "quat_squaredLength (quat_normalize (Num x, Num y, Num z, Num w)) = Num 1"
proof -
  define L where "L = x * x + y * y + z * z + w * w"
  define N where "N = sqrt L"
  have L: "0 < L"
    unfolding L_def using assms by (rule sum_of_four_squares_pos)
  then have N: "N \<noteq> 0" "N * N = L"
    by (simp_all add: N_def)
  have normalized: "quat_normalize (Num x, Num y, Num z, Num w) =
      (Num (x / N), Num (y / N), Num (z / N), Num (w / N))"
    using L N by (simp add: Let_def L_def [symmetric] N_def [symmetric])
  have "x / N * (x / N) + y / N * (y / N) + z / N * (z / N) + w / N * (w / N) = L / (N * N)"
    by (simp add: L_def add_divide_distrib)
  also have "\<dots> = 1"
    using N L by simp
  finally have one:
    "x / N * (x / N) + y / N * (y / N) + z / N * (z / N) + w / N * (w / N) = 1" .
  show ?thesis
    by (simp only: normalized quat_squaredLength.simps times_number.simps plus_number.simps one)
qed

lemma addScaledVector_Num:
  "addScaledVector (Num x, Num y, Num z, Num w) (Num a, Num b, Num c) (Num d) =
     (Num (x + (a * d * w + b * d * z - c * d * y) / 2),
      Num (y + (b * d * w + c * d * x - a * d * z) / 2),
      Num (z + (c * d * w + a * d * y - b * d * x) / 2),
      Num (w + (- (a * d * x) - b * d * y - c * d * z) / 2))"
  by (simp add: minus_number_def field_simps)

text \<open>
  The quaternion added is orthogonal to the orientation, so the squared length grows by
  the factor \<open>1 + (a\<^sup>2 + b\<^sup>2 + c\<^sup>2) / 4\<close> and the sum is not zero.
\<close>

lemma addScaledVector_nonzero:
  fixes x y z w a b c :: real
  assumes "(x, y, z, w) \<noteq> (0, 0, 0, 0)"
  shows "(x + (a * w + b * z - c * y) / 2, y + (b * w + c * x - a * z) / 2,
          z + (c * w + a * y - b * x) / 2, w + (- (a * x) - b * y - c * z) / 2) \<noteq> (0, 0, 0, 0)"
proof
  assume zero: "(x + (a * w + b * z - c * y) / 2, y + (b * w + c * x - a * z) / 2,
          z + (c * w + a * y - b * x) / 2, w + (- (a * x) - b * y - c * z) / 2) = (0, 0, 0, 0)"
  define L where "L = x * x + y * y + z * z + w * w"
  have L: "0 < L"
    unfolding L_def using assms by (rule sum_of_four_squares_pos)
  have grows: "(x + (a * w + b * z - c * y) / 2)\<^sup>2 + (y + (b * w + c * x - a * z) / 2)\<^sup>2 +
          (z + (c * w + a * y - b * x) / 2)\<^sup>2 + (w + (- (a * x) - b * y - c * z) / 2)\<^sup>2
        = L * (1 + (a * a + b * b + c * c) / 4)"
    unfolding L_def by (simp add: power2_eq_square field_simps)
  from zero
  have "(x + (a * w + b * z - c * y) / 2)\<^sup>2 + (y + (b * w + c * x - a * z) / 2)\<^sup>2 +
          (z + (c * w + a * y - b * x) / 2)\<^sup>2 + (w + (- (a * x) - b * y - c * z) / 2)\<^sup>2 = 0"
    by simp
  with grows have "L * (1 + (a * a + b * b + c * c) / 4) = 0"
    by simp
  moreover have "0 \<le> (a * a + b * b + c * c) / 4"
    by simp
  then have "0 < 1 + (a * a + b * b + c * c) / 4"
    by linarith
  ultimately show False
    using L by simp
qed

lemma normalize_addScaledVector_unit:
  assumes "(x, y, z, w) \<noteq> (0, 0, 0, 0)"
  shows "quat_squaredLength (quat_normalize
           (addScaledVector (Num x, Num y, Num z, Num w) (Num a, Num b, Num c) (Num d))) = Num 1"
  unfolding addScaledVector_Num
  using addScaledVector_nonzero [OF assms, of "a * d" "b * d" "c * d"]
  by (intro quat_normalize_unit) simp

lemma Math_pow_finite:
  "0 \<le> a \<Longrightarrow> 0 < d \<Longrightarrow> \<exists>r. Math_pow (Num a) (Num d) = Num r"
  by simp

lemma elem_finite: "list_all isFinite m \<Longrightarrow> i < length m \<Longrightarrow> \<exists>r. elem m i = Num r"
  by (simp add: elem_def list_all_length isFinite_Num)

lemma transformMat3_finite:
  assumes "list_all isFinite m" and "9 \<le> length m"
  shows "\<exists>u v w. vec3_transformMat3 (Num a, Num b, Num c) m = (Num u, Num v, Num w)"
proof -
  have "\<forall>i<9. \<exists>r. elem m i = Num r"
    using assms by (auto intro: elem_finite)
  then obtain e where "\<forall>i<9. elem m i = Num (e i)"
    by metis
  then have "elem m 0 = Num (e 0)" "elem m 1 = Num (e 1)" "elem m 2 = Num (e 2)"
    "elem m 3 = Num (e 3)" "elem m 4 = Num (e 4)" "elem m 5 = Num (e 5)"
    "elem m 6 = Num (e 6)" "elem m 7 = Num (e 7)" "elem m 8 = Num (e 8)"
    by simp_all
  then show ?thesis by simp
qed

text \<open>The orientation an awake body has after \<open>integrate\<close>; the sleep test does not touch it.\<close>

lemma integrate_orientation:
  "isAwake b \<Longrightarrow> orientation (RigidBody_integrate b duration) =
     quat_normalize (addScaledVector (orientation b)
       (vec3_scale (vec3_scaleAndAdd (rotation b)
           (vec3_transformMat3 (torqueAccum b) (inverseInertiaTensorWorld b)) duration)
         (Math_pow (angularDamping b) duration)) duration)"
  by (simp add: RigidBody_integrate_def calculateDerivedData_def clearAccumulators_def
      setAwake_def Let_def)

text \<open>
  C5. The orientation of every rigid body is claimed to have unit norm after any sequence
  of \<open>integrate\<close> calls, and after every \<open>calculateDerivedData\<close>. \<open>integrate\<close> returns at once
  for a body that is not awake, as a body is when constructed: an orientation set to a
  quaternion of length 2 keeps the squared length 4. \<open>calculateDerivedData\<close> normalises
  with the library's \<open>normalize\<close>, which leaves the zero quaternion zero.
\<close>

theorem orientation_not_unit:
  "orientation (RigidBody_integrate stretched_body (Num 1)) = (Num 0, Num 0, Num 0, Num 2) \<and>
   quat_squaredLength (orientation (RigidBody_integrate stretched_body (Num 1))) = Num 4 \<and>
   quat_squaredLength (orientation (calculateDerivedData collapsed_body)) = Num 0"
  by (simp add: body_evals stretched_body_def collapsed_body_def)

text \<open>
  C5, amended. \<open>integrate\<close> leaves a body that is not awake as it was, its orientation
  included. When the components of the orientation are finite and not all zero,
  \<open>calculateDerivedData\<close> leaves an orientation of unit norm; and so does one \<open>integrate\<close>
  of an awake body for a finite positive duration, the rotation, the torque, the world
  inverse inertia tensor and the angular damping being finite and the damping not
  negative. (Nothing is said of a second \<open>integrate\<close>, whose inertia tensor is the one the
  first call computed.)
\<close>

theorem orientation_unit:
  "(\<not> isAwake b \<longrightarrow> RigidBody_integrate b duration = b) \<and>
   (finite_quat (orientation b) \<and> orientation b \<noteq> (Num 0, Num 0, Num 0, Num 0) \<longrightarrow>
    quat_squaredLength (orientation (calculateDerivedData b)) = Num 1 \<and>
    (isAwake b \<and> finite_vec3 (rotation b) \<and> finite_vec3 (torqueAccum b) \<and>
     list_all isFinite (inverseInertiaTensorWorld b) \<and>
     9 \<le> length (inverseInertiaTensorWorld b) \<and>
     isFinite (angularDamping b) \<and> Num 0 \<le> angularDamping b \<and>
     isFinite duration \<and> Num 0 < duration \<longrightarrow>
     quat_squaredLength (orientation (RigidBody_integrate b duration)) = Num 1))"
proof -
  have asleep: "RigidBody_integrate b duration = b" if "\<not> isAwake b"
    using that by (simp add: RigidBody_integrate_def)
  have derived: "quat_squaredLength (orientation (calculateDerivedData b)) = Num 1"
    if fin: "finite_quat (orientation b)"
      and nonzero: "orientation b \<noteq> (Num 0, Num 0, Num 0, Num 0)"
  proof -
    from fin obtain x y z w where q: "orientation b = (Num x, Num y, Num z, Num w)"
      using finite_quat_Num by blast
    with nonzero have nz: "(x, y, z, w) \<noteq> (0, 0, 0, 0)"
      by simp
    have "orientation (calculateDerivedData b) = quat_normalize (orientation b)"
      by (simp add: calculateDerivedData_def Let_def)
    then show ?thesis
      using quat_normalize_unit [OF nz] by (simp only: q)
  qed
  have integrated: "quat_squaredLength (orientation (RigidBody_integrate b duration)) = Num 1"
    if fin: "finite_quat (orientation b)"
      and nonzero: "orientation b \<noteq> (Num 0, Num 0, Num 0, Num 0)"
      and h: "isAwake b" "finite_vec3 (rotation b)" "finite_vec3 (torqueAccum b)"
      "list_all isFinite (inverseInertiaTensorWorld b)"
      "9 \<le> length (inverseInertiaTensorWorld b)"
      "isFinite (angularDamping b)" "Num 0 \<le> angularDamping b"
      "isFinite duration" "Num 0 < duration"
  proof -
    from fin obtain x y z w where q: "orientation b = (Num x, Num y, Num z, Num w)"
      using finite_quat_Num by blast
    with nonzero have nz: "(x, y, z, w) \<noteq> (0, 0, 0, 0)"
      by simp
    from h(2) obtain r0 r1 r2 where r: "rotation b = (Num r0, Num r1, Num r2)"
      using finite_vec3_Num by blast
    from h(3) obtain t0 t1 t2 where t: "torqueAccum b = (Num t0, Num t1, Num t2)"
      using finite_vec3_Num by blast
    from h(6) obtain a where a: "angularDamping b = Num a"
      using isFinite_Num by blast
    from h(8) obtain d where d: "duration = Num d"
      using isFinite_Num by blast
    from h(7) a have a0: "0 \<le> a" by simp
    from h(9) d have d0: "0 < d" by simp
    obtain u0 u1 u2 where u:
      "vec3_transformMat3 (torqueAccum b) (inverseInertiaTensorWorld b) = (Num u0, Num u1, Num u2)"
      using transformMat3_finite [OF h(4) h(5)] t by metis
    obtain p where p: "Math_pow (angularDamping b) (Num d) = Num p"
      using Math_pow_finite [OF a0 d0] a by metis
    have "orientation (RigidBody_integrate b duration) =
        quat_normalize (addScaledVector (Num x, Num y, Num z, Num w)
          (Num ((r0 + u0 * d) * p), Num ((r1 + u1 * d) * p), Num ((r2 + u2 * d) * p)) (Num d))"
      by (simp only: integrate_orientation [OF h(1)] q r u p d vec3_scaleAndAdd.simps
          vec3_scale.simps plus_number.simps times_number.simps)
    then show ?thesis
      using normalize_addScaledVector_unit [OF nz] by simp
  qed
  from asleep derived integrated show ?thesis by blast
qed

theorem orientation_unit_witness:
  "\<not> isAwake stretched_body \<and>
   RigidBody_integrate stretched_body (Num 1) = stretched_body \<and>
   finite_quat (orientation spinning_body) \<and>
   orientation spinning_body \<noteq> (Num 0, Num 0, Num 0, Num 0) \<and>
   isAwake spinning_body \<and> finite_vec3 (rotation spinning_body) \<and>
   finite_vec3 (torqueAccum spinning_body) \<and>
   list_all isFinite (inverseInertiaTensorWorld spinning_body) \<and>
   9 \<le> length (inverseInertiaTensorWorld spinning_body) \<and>
   isFinite (angularDamping spinning_body) \<and> Num 0 \<le> angularDamping spinning_body \<and>
   isFinite (Num 1) \<and> Num 0 < Num 1 \<and>
   quat_squaredLength (orientation (calculateDerivedData spinning_body)) = Num 1 \<and>
   quat_squaredLength (orientation (RigidBody_integrate spinning_body (Num 1))) = Num 1"
proof -
  have asleep: "\<not> isAwake stretched_body"
    by (simp add: stretched_body_def new_RigidBody_def)
  have spinning: "finite_quat (orientation spinning_body)"
    "orientation spinning_body \<noteq> (Num 0, Num 0, Num 0, Num 0)"
    "isAwake spinning_body" "finite_vec3 (rotation spinning_body)"
    "finite_vec3 (torqueAccum spinning_body)"
    "list_all isFinite (inverseInertiaTensorWorld spinning_body)"
    "9 \<le> length (inverseInertiaTensorWorld spinning_body)"
    "isFinite (angularDamping spinning_body)" "Num 0 \<le> angularDamping spinning_body"
    by (simp_all add: spinning_body_def new_RigidBody_def quat_create_def vec3_create_def
        mat3_create_def)
  from asleep orientation_unit [of stretched_body "Num 1"]
  have "RigidBody_integrate stretched_body (Num 1) = stretched_body"
    by blast
  moreover from spinning orientation_unit [of spinning_body "Num 1"]
  have "quat_squaredLength (orientation (calculateDerivedData spinning_body)) = Num 1 \<and>
    quat_squaredLength (orientation (RigidBody_integrate spinning_body (Num 1))) = Num 1"
    by simp
  ultimately show ?thesis
    using asleep spinning by simp
qed

text \<open>
  The world inverse inertia tensor that \<open>calculateDerivedData\<close> computes holds NaN in its
  last row, the product that reads \<open>iitBody[9]\<close> being NaN; the next \<open>integrate\<close> multiplies
  the torque by it. A body as constructed, woken and integrated twice, has an orientation
  of four NaN.
\<close>

lemma integrate_twice_orientation:
  "orientation (RigidBody_integrate (RigidBody_integrate awake_body (Num 1)) (Num 1)) =
     (NaN, NaN, NaN, NaN)"
  by (simp add: body_evals awake_body_def)

end
